theory Spec2Isabelle
  imports Complex_Main "HOL-Library.Log_Nat"
begin

section \<open>Data model of the payments service\<close>

text \<open>
  The embedding follows \<^verbatim>\<open>src/services/payments/payments.service.ts\<close>.
  A JavaScript number is an IEEE-754 double: it is modelled as the rational it
  denotes, and every product and difference the source computes is rounded to the
  nearest double (section on doubles below); infinities and NaN are not modelled. A
  value that may be \<^verbatim>\<open>undefined\<close> or \<^verbatim>\<open>null\<close> is an option.
\<close>

datatype SubscriptionPlan = FREE | HOBBY | PRO

type_synonym ApplicationPlatform = string
type_synonym PromotionType = string
type_synonym PublicKey = string
type_synonym Keypair = string

datatype PaymentsMessageEnum =
    NO_USER_FOUND
  | USER_ALREADY_PAID
  | INVALID_PLAN
  | INSUFFICIENT_BALANCE
  | INTERNAL_ERROR
  | PLAN_UPGRADED
  | DONATION_MADE
  | TRANSACTION_SUCCESS

record UserSubscription =
  platform' :: ApplicationPlatform
  plan' :: SubscriptionPlan

record User =
  id' :: string
  personalWalletPubKey :: string
  personalWalletPrivKey :: string
  userSubscriptions :: "UserSubscription list"

text \<open>The row returned by the repository's subscription write; only the field the
  service reads is kept (a \<^verbatim>\<open>Date | null\<close>, as a time stamp).\<close>

record StoredSubscription =
  subscriptionCurrentPeriodEnd :: "rat option"

record ChargeOutcome =
  success :: bool
  message :: PaymentsMessageEnum

record SubscriptionOutcome = ChargeOutcome +
  subscriptionEnd :: "string option"

record TransferParams =
  fromPubkey :: PublicKey
  toPubkey :: PublicKey
  lamports :: rat

datatype Instruction = Transfer TransferParams

section \<open>Effects: calls that may throw, and the trace of external calls\<close>

text \<open>A call either throws (a rejected promise, for an asynchronous call) or
  returns a value.\<close>

datatype 'a reply = Throws | Returns 'a

text \<open>The calls the service makes on its collaborators, with their arguments.\<close>

datatype Call =
    GetById string
  | GetAccountBalance PublicKey
  | CreateAndSendNativeV0Tx "Instruction list" Keypair
  | UpdateUserSubscription string SubscriptionPlan ApplicationPlatform "rat option"
  | HasDonated string
  | BuyPromotion string PromotionType

text \<open>
  Everything the service reads but does not define: the constants of
  \<^verbatim>\<open>../../constants\<close> (not among the sources, hence parameters) and the answers of
  the collaborators (repositories, balance query, key parsing, transaction service,
  date formatting). Within one invocation every collaborator is called at most once,
  so an answer per argument is enough.
\<close>

record Env =
  BETTER_CALL_SOL_PK :: string
  HOBBY_PLAN_FEE :: rat
  PRO_PLAN_FEE :: rat
  MAX_HOBBY_PERIOD :: rat
  MAX_PRO_PERIOD :: rat
  SUBSCRIPTION_HIERARCHY :: "SubscriptionPlan \<Rightarrow> rat"
  getById :: "string \<Rightarrow> User option reply"
  hasDonated :: "string \<Rightarrow> unit reply"
  repo_updateUserSubscription ::
    "string \<Rightarrow> SubscriptionPlan \<Rightarrow> ApplicationPlatform \<Rightarrow> rat option \<Rightarrow> StoredSubscription reply"
  buyPromotion :: "string \<Rightarrow> PromotionType \<Rightarrow> string reply"
  getAccountBalance :: "PublicKey \<Rightarrow> rat option reply"
  newPublicKey :: "string \<Rightarrow> PublicKey reply"
  lamportsEncodable :: "rat \<Rightarrow> bool"
  Keypair_fromSecretKey :: "string \<Rightarrow> Keypair reply"
  createAndSendNativeV0Tx :: "Instruction list \<Rightarrow> Keypair \<Rightarrow> bool reply"
  format :: "rat option \<Rightarrow> string reply"

text \<open>A computation extends the trace and returns or throws.\<close>

type_synonym 'a prog = "Call list \<Rightarrow> 'a reply \<times> Call list"

definition ret :: "'a \<Rightarrow> 'a prog" where
  "ret x = (\<lambda>tr. (Returns x, tr))"

text \<open>A synchronous step that may throw and calls no collaborator.\<close>

definition lift :: "'a reply \<Rightarrow> 'a prog" where
  "lift r = (\<lambda>tr. (r, tr))"

text \<open>A call on a collaborator: it is recorded whether it returns or throws.\<close>

definition call :: "Call \<Rightarrow> 'a reply \<Rightarrow> 'a prog" where
  "call c r = (\<lambda>tr. (r, tr @ [c]))"

text \<open>\<^verbatim>\<open>const x = await m; k(x)\<close>: a throw of \<open>m\<close> skips the continuation.\<close>

definition await :: "'a prog \<Rightarrow> ('a \<Rightarrow> 'b prog) \<Rightarrow> 'b prog" where
  "await m k = (\<lambda>tr. case m tr of
      (Throws, tr') \<Rightarrow> (Throws, tr')
    | (Returns x, tr') \<Rightarrow> k x tr')"

text \<open>\<^verbatim>\<open>try { body } catch (error) { handler }\<close>.\<close>

definition tryCatch :: "'a prog \<Rightarrow> 'a prog \<Rightarrow> 'a prog" where
  "tryCatch body handler = (\<lambda>tr. case body tr of
      (Throws, tr') \<Rightarrow> handler tr'
    | (Returns x, tr') \<Rightarrow> (Returns x, tr'))"

definition run :: "'a prog \<Rightarrow> 'a reply \<times> Call list" where
  "run p = p []"

section \<open>Arithmetic on doubles\<close>

text \<open>\<open>pow2 k\<close> is \<open>2\<^sup>k\<close> for an integer \<open>k\<close>, and \<open>ilog2 x\<close> is the integer part of the
  binary logarithm of a positive rational: for \<open>x = p / q\<close> it lies within one of the
  difference of the bit lengths of \<open>p\<close> and \<open>q\<close>.\<close>

definition pow2 :: "int \<Rightarrow> rat" where
  "pow2 k = (if 0 \<le> k then 2 ^ nat k else 1 / 2 ^ nat (- k))"

definition ilog2 :: "rat \<Rightarrow> int" where
  "ilog2 x = (case quotient_of x of (p, q) \<Rightarrow>
     (let k = bitlen p - bitlen q in if pow2 k \<le> x then k else k - 1))"

text \<open>Rounding to the nearest integer, a tie going to the even neighbour.\<close>

definition roundHalfEven :: "rat \<Rightarrow> int" where
  "roundHalfEven x =
     (let n = \<lfloor>x\<rfloor>; r = x - of_int n
      in if r < 1 / 2 then n else if 1 / 2 < r then n + 1 else if even n then n else n + 1)"

text \<open>The double nearest to a rational (round to nearest, ties to even): a significand
  of 53 bits, the exponent not below that of the subnormal numbers. Overflow to
  infinity is not modelled.\<close>

definition toDouble :: "rat \<Rightarrow> rat" where
  "toDouble x =
     (if x = 0 then 0
      else (let e = max (ilog2 \<bar>x\<bar> - 52) (- 1074)
            in of_int (roundHalfEven (x / pow2 e)) * pow2 e))"

text \<open>The operators \<^verbatim>\<open>*\<close> and \<^verbatim>\<open>-\<close> of the source on two doubles.\<close>

definition fmul :: "rat \<Rightarrow> rat \<Rightarrow> rat" where
  "fmul x y = toDouble (x * y)"

definition fsub :: "rat \<Rightarrow> rat \<Rightarrow> rat" where
  "fsub x y = toDouble (x - y)"

section \<open>The service\<close>

definition SIGNATURE_FEE :: rat where
  "SIGNATURE_FEE = 5000"

text \<open>The constant of \<^verbatim>\<open>@solana/web3.js\<close>.\<close>

definition LAMPORTS_PER_SOL :: rat where
  "LAMPORTS_PER_SOL = 1000000000"

text \<open>\<^verbatim>\<open>if (!x)\<close> on a number that may be missing: a missing value and zero are
  both falsy; otherwise the number is there.\<close>

definition truthy :: "rat option \<Rightarrow> rat option" where
  "truthy x = (case x of None \<Rightarrow> None | Some v \<Rightarrow> if v = 0 then None else Some v)"

definition isInvalidUpgrade :: "Env \<Rightarrow> SubscriptionPlan \<Rightarrow> SubscriptionPlan option \<Rightarrow> bool" where
  "isInvalidUpgrade e plan userPlan \<longleftrightarrow>
     userPlan = Some plan \<or>
     SUBSCRIPTION_HIERARCHY e (case userPlan of None \<Rightarrow> FREE | Some p \<Rightarrow> p)
       > SUBSCRIPTION_HIERARCHY e plan"

text \<open>\<^verbatim>\<open>SystemProgram.transfer\<close> throws on an amount it cannot encode.\<close>

definition SystemProgram_transfer :: "Env \<Rightarrow> TransferParams \<Rightarrow> Instruction reply" where
  "SystemProgram_transfer e params =
     (if lamportsEncodable e (lamports params) then Returns (Transfer params) else Throws)"

text \<open>The instructions of the transaction built by \<^verbatim>\<open>createTransaction\<close>.\<close>

definition createTransaction :: "Env \<Rightarrow> PublicKey \<Rightarrow> rat \<Rightarrow> Instruction list prog" where
  "createTransaction e userPublicKey fee =
     await (lift (newPublicKey e (BETTER_CALL_SOL_PK e))) (\<lambda>operatorKey.
     await (lift (SystemProgram_transfer e
        \<lparr>fromPubkey = userPublicKey, toPubkey = operatorKey, lamports = fee\<rparr>)) (\<lambda>instruction.
     ret [instruction]))"

definition getKeypairFromPrivateKey :: "Env \<Rightarrow> string \<Rightarrow> Keypair prog" where
  "getKeypairFromPrivateKey e base64PrivateKey = lift (Keypair_fromSecretKey e base64PrivateKey)"

text \<open>The table \<^verbatim>\<open>{ HOBBY: HOBBY_PLAN_FEE, PRO: PRO_PLAN_FEE }[plan]\<close>: any other
  plan has no fee.\<close>

definition getPlanFee :: "Env \<Rightarrow> SubscriptionPlan \<Rightarrow> rat option" where
  "getPlanFee e plan =
     (case plan of HOBBY \<Rightarrow> Some (HOBBY_PLAN_FEE e) | PRO \<Rightarrow> Some (PRO_PLAN_FEE e) | FREE \<Rightarrow> None)"

definition updateUserSubscription ::
  "Env \<Rightarrow> string \<Rightarrow> SubscriptionPlan \<Rightarrow> ApplicationPlatform \<Rightarrow> SubscriptionOutcome prog" where
  "updateUserSubscription e userId plan platform =
     (let subscriptionPeriod =
        (case plan of HOBBY \<Rightarrow> Some (MAX_HOBBY_PERIOD e) | PRO \<Rightarrow> Some (MAX_PRO_PERIOD e)
                    | FREE \<Rightarrow> None)
      in
      await (call (UpdateUserSubscription userId plan platform subscriptionPeriod)
               (repo_updateUserSubscription e userId plan platform subscriptionPeriod)) (\<lambda>subscription.
      await (lift (format e (subscriptionCurrentPeriodEnd subscription))) (\<lambda>formatted.
      ret \<lparr>success = True, message = PLAN_UPGRADED, subscriptionEnd = Some formatted\<rparr>)))"

text \<open>
  \<^verbatim>\<open>chargeSubscription\<close>. Inside the \<^verbatim>\<open>try\<close> the source returns the promise of
  \<^verbatim>\<open>this.updateUserSubscription(...)\<close> without awaiting it, so a rejection of that
  promise is not seen by the \<^verbatim>\<open>catch\<close>: the \<^verbatim>\<open>try\<close> block yields the pending
  computation, which runs after the block and whose throw leaves the function.
\<close>

definition chargeSubscription ::
  "Env \<Rightarrow> string \<Rightarrow> SubscriptionPlan \<Rightarrow> ApplicationPlatform \<Rightarrow> SubscriptionOutcome prog" where
  "chargeSubscription e userId plan platform =
     await (call (GetById userId) (getById e userId)) (\<lambda>userOpt.
     case userOpt of
       None \<Rightarrow> ret \<lparr>success = False, message = NO_USER_FOUND, subscriptionEnd = None\<rparr>
     | Some user \<Rightarrow>
        (let subscription =
           find (\<lambda>sub. platform' sub = platform) (userSubscriptions user)
         in
         if isInvalidUpgrade e plan (map_option plan' subscription)
         then ret \<lparr>success = False, message = USER_ALREADY_PAID, subscriptionEnd = None\<rparr>
         else
           await (lift (newPublicKey e (personalWalletPubKey user))) (\<lambda>userPublicKey.
           await (call (GetAccountBalance userPublicKey)
                    (getAccountBalance e userPublicKey)) (\<lambda>balanceOpt.
           case truthy balanceOpt of
             None \<Rightarrow>
               ret \<lparr>success = False, message = INSUFFICIENT_BALANCE, subscriptionEnd = None\<rparr>
           | Some balance \<Rightarrow>
              (case truthy (getPlanFee e plan) of
                 None \<Rightarrow>
                   ret \<lparr>success = False, message = INVALID_PLAN, subscriptionEnd = None\<rparr>
               | Some planFee \<Rightarrow>
                  if balance \<ge> planFee
                  then
                    await
                      (tryCatch
                        (await (createTransaction e userPublicKey (fsub planFee SIGNATURE_FEE))
                           (\<lambda>instructions.
                         await (getKeypairFromPrivateKey e (personalWalletPrivKey user))
                           (\<lambda>userKeypair.
                         await (call (CreateAndSendNativeV0Tx instructions userKeypair)
                                  (createAndSendNativeV0Tx e instructions userKeypair))
                           (\<lambda>confirmed.
                         if \<not> confirmed
                         then ret (ret \<lparr>success = False, message = INTERNAL_ERROR,
                                        subscriptionEnd = None\<rparr>)
                         else ret (updateUserSubscription e (id' user) plan platform)))))
                        (ret (ret \<lparr>success = False, message = INTERNAL_ERROR,
                                   subscriptionEnd = None\<rparr>)))
                      (\<lambda>pending. pending)
                  else
                    await
                      (if map_option plan' subscription = None
                       then await (call (UpdateUserSubscription (id' user) FREE platform None)
                                     (repo_updateUserSubscription e (id' user) FREE platform None))
                              (\<lambda>_. ret ())
                       else ret ())
                      (\<lambda>_. ret \<lparr>success = False, message = INSUFFICIENT_BALANCE,
                                  subscriptionEnd = None\<rparr>))))))"

definition chargeDonation :: "Env \<Rightarrow> string \<Rightarrow> rat \<Rightarrow> ChargeOutcome prog" where
  "chargeDonation e userId donation =
     await (call (GetById userId) (getById e userId)) (\<lambda>userOpt.
     case userOpt of
       None \<Rightarrow> ret \<lparr>success = False, message = NO_USER_FOUND\<rparr>
     | Some user \<Rightarrow>
         await (lift (newPublicKey e (personalWalletPubKey user))) (\<lambda>userPublicKey.
         await (call (GetAccountBalance userPublicKey)
                  (getAccountBalance e userPublicKey)) (\<lambda>balanceOpt.
         case truthy balanceOpt of
           None \<Rightarrow> ret \<lparr>success = False, message = INSUFFICIENT_BALANCE\<rparr>
         | Some balance \<Rightarrow>
            (let donationLamports = fmul donation LAMPORTS_PER_SOL in
             if balance \<ge> donationLamports
             then
               tryCatch
                 (await (createTransaction e userPublicKey (fsub donationLamports SIGNATURE_FEE))
                    (\<lambda>instructions.
                  await (getKeypairFromPrivateKey e (personalWalletPrivKey user))
                    (\<lambda>userKeypair.
                  await (call (CreateAndSendNativeV0Tx instructions userKeypair)
                           (createAndSendNativeV0Tx e instructions userKeypair))
                    (\<lambda>confirmed.
                  if \<not> confirmed
                  then ret \<lparr>success = False, message = INTERNAL_ERROR\<rparr>
                  else
                    await (call (HasDonated userId) (hasDonated e userId)) (\<lambda>_.
                    ret \<lparr>success = True, message = DONATION_MADE\<rparr>)))))
                 (ret \<lparr>success = False, message = INTERNAL_ERROR\<rparr>)
             else ret \<lparr>success = False, message = INSUFFICIENT_BALANCE\<rparr>))))"

definition chargePromotion :: "Env \<Rightarrow> string \<Rightarrow> rat \<Rightarrow> PromotionType \<Rightarrow> ChargeOutcome prog" where
  "chargePromotion e userId promotionAmt promotionType =
     await (call (GetById userId) (getById e userId)) (\<lambda>userOpt.
     case userOpt of
       None \<Rightarrow> ret \<lparr>success = False, message = NO_USER_FOUND\<rparr>
     | Some user \<Rightarrow>
         await (lift (newPublicKey e (personalWalletPubKey user))) (\<lambda>userPublicKey.
         await (call (GetAccountBalance userPublicKey)
                  (getAccountBalance e userPublicKey)) (\<lambda>balanceOpt.
         case truthy balanceOpt of
           None \<Rightarrow> ret \<lparr>success = False, message = INSUFFICIENT_BALANCE\<rparr>
         | Some balance \<Rightarrow>
            (let promotionAmtLamports = fmul promotionAmt LAMPORTS_PER_SOL in
             if balance \<ge> promotionAmtLamports
             then
               tryCatch
                 (await (createTransaction e userPublicKey (fsub promotionAmt SIGNATURE_FEE))
                    (\<lambda>instructions.
                  await (getKeypairFromPrivateKey e (personalWalletPrivKey user))
                    (\<lambda>userKeypair.
                  await (call (CreateAndSendNativeV0Tx instructions userKeypair)
                           (createAndSendNativeV0Tx e instructions userKeypair))
                    (\<lambda>confirmed.
                  if \<not> confirmed
                  then ret \<lparr>success = False, message = INTERNAL_ERROR\<rparr>
                  else
                    await (call (BuyPromotion userId promotionType)
                             (buyPromotion e userId promotionType)) (\<lambda>promMessage.
                    if promMessage = ''Non-stackable promotion already purchased''
                    then ret \<lparr>success = False, message = USER_ALREADY_PAID\<rparr>
                    else ret \<lparr>success = True, message = TRANSACTION_SUCCESS\<rparr>)))))
                 (ret \<lparr>success = False, message = INTERNAL_ERROR\<rparr>)
             else ret \<lparr>success = False, message = INSUFFICIENT_BALANCE\<rparr>))))"

section \<open>Vocabulary of the properties\<close>

text \<open>The plan of the user's subscription on the platform, if there is one
  (\<^verbatim>\<open>subscription?.plan\<close> in \<^verbatim>\<open>chargeSubscription\<close>), and the rank the validity
  rule compares, an absent subscription counting as FREE.\<close>

definition currentPlan :: "User \<Rightarrow> ApplicationPlatform \<Rightarrow> SubscriptionPlan option" where
  "currentPlan user platform =
     map_option plan' (find (\<lambda>sub. platform' sub = platform) (userSubscriptions user))"

definition currentRank :: "Env \<Rightarrow> User \<Rightarrow> ApplicationPlatform \<Rightarrow> rat" where
  "currentRank e user platform =
     SUBSCRIPTION_HIERARCHY e (case currentPlan user platform of None \<Rightarrow> FREE | Some p \<Rightarrow> p)"

text \<open>The three steps every entry point performs inside its \<^verbatim>\<open>try\<close> block to move
  funds: build the transfer, decode the signing key, submit and await confirmation.
  It throws when one of the steps throws and returns the confirmation flag otherwise.\<close>

definition transferAttempt :: "Env \<Rightarrow> PublicKey \<Rightarrow> string \<Rightarrow> rat \<Rightarrow> bool prog" where
  "transferAttempt e userPublicKey privKey amount =
     await (createTransaction e userPublicKey amount) (\<lambda>instructions.
     await (getKeypairFromPrivateKey e privKey) (\<lambda>userKeypair.
     call (CreateAndSendNativeV0Tx instructions userKeypair)
       (createAndSendNativeV0Tx e instructions userKeypair)))"

fun isTransferCall :: "Call \<Rightarrow> bool" where
  "isTransferCall (CreateAndSendNativeV0Tx _ _) = True"
| "isTransferCall _ = False"

fun isBalanceQuery :: "Call \<Rightarrow> bool" where
  "isBalanceQuery (GetAccountBalance _) = True"
| "isBalanceQuery _ = False"

text \<open>The calls that change an entitlement: a subscription write, the donation
  flag, a promotion record.\<close>

fun isEntitlementWrite :: "Call \<Rightarrow> bool" where
  "isEntitlementWrite (UpdateUserSubscription _ _ _ _) = True"
| "isEntitlementWrite (HasDonated _) = True"
| "isEntitlementWrite (BuyPromotion _ _) = True"
| "isEntitlementWrite _ = False"

definition isSuccessMessage :: "PaymentsMessageEnum \<Rightarrow> bool" where
  "isSuccessMessage m \<longleftrightarrow> m = PLAN_UPGRADED \<or> m = DONATION_MADE \<or> m = TRANSACTION_SUCCESS"





section \<open>Concrete environments\<close>

text \<open>A user without any subscription and a user holding the HOBBY plan on the
  platform \<open>BOOSTS\<close>.\<close>

definition user1 :: User where
  "user1 = \<lparr>id' = ''u1'', personalWalletPubKey = ''wallet1'',
            personalWalletPrivKey = ''secret1'', userSubscriptions = []\<rparr>"

definition user2 :: User where
  "user2 = \<lparr>id' = ''u2'', personalWalletPubKey = ''wallet2'',
            personalWalletPrivKey = ''secret2'',
            userSubscriptions = [\<lparr>platform' = ''BOOSTS'', plan' = HOBBY\<rparr>]\<rparr>"

text \<open>The amounts \<^verbatim>\<open>SystemProgram.transfer\<close> encodes: unsigned integers of 64 bits.
  It throws on any other amount.\<close>

definition isU64 :: "rat \<Rightarrow> bool" where
  "isU64 x \<longleftrightarrow> 0 \<le> x \<and> x < 18446744073709551616 \<and> of_int \<lfloor>x\<rfloor> = x"

text \<open>An environment in which every collaborator answers: balances are 1,000,000
  units, the HOBBY plan costs 500,000 units, plans rank FREE < HOBBY < PRO, every
  transfer of an encodable amount is confirmed, and the promotion store accepts the
  purchase.\<close>

definition env0 :: Env where
  "env0 = \<lparr>
     BETTER_CALL_SOL_PK = ''operator'',
     HOBBY_PLAN_FEE = 500000,
     PRO_PLAN_FEE = 900000,
     MAX_HOBBY_PERIOD = 30,
     MAX_PRO_PERIOD = 30,
     SUBSCRIPTION_HIERARCHY = (\<lambda>p. case p of FREE \<Rightarrow> 0 | HOBBY \<Rightarrow> 1 | PRO \<Rightarrow> 2),
     getById = (\<lambda>u. if u = ''u1'' then Returns (Some user1)
                     else if u = ''u2'' then Returns (Some user2) else Returns None),
     hasDonated = (\<lambda>_. Returns ()),
     repo_updateUserSubscription =
       (\<lambda>_ _ _ _. Returns \<lparr>subscriptionCurrentPeriodEnd = Some 1764633600000\<rparr>),
     buyPromotion = (\<lambda>_ _. Returns ''Promotion purchased''),
     getAccountBalance = (\<lambda>_. Returns (Some 1000000)),
     newPublicKey = (\<lambda>s. Returns s),
     lamportsEncodable = isU64,
     Keypair_fromSecretKey = (\<lambda>s. Returns s),
     createAndSendNativeV0Tx = (\<lambda>_ _. Returns True),
     format = (\<lambda>d. case d of None \<Rightarrow> Throws | Some _ \<Rightarrow> Returns ''12/02/2025'')\<rparr>"

text \<open>Variations of \<open>env0\<close>: a balance of two SOL; a promotion store that refuses
  the purchase; a transfer that is not confirmed; a balance query that returns nothing;
  a balance of zero; a balance of 100 units with a failing subscription write; a stored
  wallet address that does not parse; a balance of 6000 SOL; a failing user lookup;
  a failing balance query;
  balances of 67,000,000, of 100,000,000 and of 99,999,999 units.\<close>

definition envRich :: Env where
  "envRich = env0\<lparr>getAccountBalance := (\<lambda>_. Returns (Some 2000000000))\<rparr>"

definition envHeld :: Env where
  "envHeld = envRich\<lparr>buyPromotion :=
     (\<lambda>_ _. Returns ''Non-stackable promotion already purchased'')\<rparr>"

definition envUnconfirmed :: Env where
  "envUnconfirmed = envRich\<lparr>createAndSendNativeV0Tx := (\<lambda>_ _. Returns False)\<rparr>"

definition envNoBalance :: Env where
  "envNoBalance = env0\<lparr>getAccountBalance := (\<lambda>_. Returns None)\<rparr>"

definition envZeroBalance :: Env where
  "envZeroBalance = env0\<lparr>getAccountBalance := (\<lambda>_. Returns (Some 0))\<rparr>"

definition envPoor :: Env where
  "envPoor = env0\<lparr>getAccountBalance := (\<lambda>_. Returns (Some 100))\<rparr>"

definition envPoorWriteFails :: Env where
  "envPoorWriteFails = envPoor\<lparr>repo_updateUserSubscription := (\<lambda>_ _ _ _. Throws)\<rparr>"

definition envBadWallet :: Env where
  "envBadWallet = env0\<lparr>newPublicKey :=
     (\<lambda>s. if s = ''operator'' then Returns s else Throws)\<rparr>"

definition envWhale :: Env where
  "envWhale = env0\<lparr>getAccountBalance := (\<lambda>_. Returns (Some 6000000000000))\<rparr>"

definition envLookupFails :: Env where
  "envLookupFails = env0\<lparr>getById := (\<lambda>_. Throws)\<rparr>"

definition envBalanceThrows :: Env where
  "envBalanceThrows = env0\<lparr>getAccountBalance := (\<lambda>_. Throws)\<rparr>"

definition env67 :: Env where
  "env67 = env0\<lparr>getAccountBalance := (\<lambda>_. Returns (Some 67000000))\<rparr>"

definition envTenth :: Env where
  "envTenth = env0\<lparr>getAccountBalance := (\<lambda>_. Returns (Some 100000000))\<rparr>"

definition envOneShort :: Env where
  "envOneShort = env0\<lparr>getAccountBalance := (\<lambda>_. Returns (Some 99999999))\<rparr>"

text \<open>The stores fail after a confirmed transfer: neither the donation flag nor the
  promotion record can be written.\<close>

definition envStoreFails :: Env where
  "envStoreFails = envRich\<lparr>hasDonated := (\<lambda>_. Throws), buyPromotion := (\<lambda>_ _. Throws)\<rparr>"

lemmas env_defs = env0_def envRich_def envHeld_def envUnconfirmed_def envNoBalance_def
  envZeroBalance_def envPoor_def envPoorWriteFails_def envBadWallet_def envStoreFails_def
  envOneShort_def envWhale_def envLookupFails_def envBalanceThrows_def env67_def
  envTenth_def
  user1_def user2_def

lemmas service_defs = createTransaction_def getKeypairFromPrivateKey_def
  SystemProgram_transfer_def transferAttempt_def updateUserSubscription_def

lemmas prog_defs = ret_def lift_def call_def await_def tryCatch_def run_def

section \<open>Doubles: whole numbers are exact\<close>

lemma roundHalfEven_int: "roundHalfEven (of_int n) = n"
  by (simp add: roundHalfEven_def)

lemma ilog2_int_le:
  assumes "0 < n" "n < 2 ^ 53"
  shows "ilog2 (of_int n) \<le> 52"
proof -
  have "bitlen n \<le> 53"
    using assms by (simp add: bitlen_le_iff_power)
  moreover have "bitlen 1 = 1"
    by (simp add: bitlen_alt_def)
  ultimately show ?thesis
    by (simp add: ilog2_def Let_def)
qed

lemma toDouble_int:
  assumes "\<bar>n\<bar> < 2 ^ 53"
  shows "toDouble (of_int n) = of_int n"
proof (cases "n = 0")
  case True
  then show ?thesis by (simp add: toDouble_def)
next
  case False
  define e where "e = max (ilog2 \<bar>of_int n\<bar> - 52) (- 1074)"
  have "ilog2 \<bar>of_int n :: rat\<bar> \<le> 52"
    using ilog2_int_le [of "\<bar>n\<bar>"] assms False by (simp flip: of_int_abs)
  then have e: "e \<le> 0"
    by (simp add: e_def)
  define j where "j = nat (- e)"
  have p: "pow2 e = 1 / 2 ^ j"
    using e by (cases "e = 0") (simp_all add: pow2_def j_def)
  have "of_int n / pow2 e = (of_int (n * 2 ^ j) :: rat)"
    by (simp add: p)
  then have "roundHalfEven (of_int n / pow2 e) = n * 2 ^ j"
    by (simp only: roundHalfEven_int)
  then have "of_int (roundHalfEven (of_int n / pow2 e)) * pow2 e = (of_int n :: rat)"
    by (simp add: p)
  with False show ?thesis
    by (simp add: toDouble_def Let_def e_def)
qed

text \<open>A whole number of magnitude below \<open>2\<^sup>5\<^sup>3\<close> is a double: rounding leaves it as
  it is.\<close>

lemma toDouble_exact:
  assumes "x \<in> \<int>" and "\<bar>x\<bar> < 2 ^ 53"
  shows "toDouble x = x"
proof -
  from assms(1) obtain n where x: "x = of_int n"
    by (rule Ints_cases)
  with assms(2) have "\<bar>n\<bar> < 2 ^ 53"
    by (simp flip: of_int_abs)
  then show ?thesis
    using toDouble_int [of n] x by simp
qed

text \<open>The literal \<^verbatim>\<open>0.067\<close> and its product with \<^verbatim>\<open>LAMPORTS_PER_SOL\<close>, which is
  not 67,000,000; the literal \<^verbatim>\<open>0.1\<close>, whose product is 100,000,000.\<close>

lemma double_067: "toDouble (67 / 1000) = 1206964700135293 / 18014398509481984"
  by code_simp



lemmas double_simps = fmul_def fsub_def toDouble_exact

section \<open>Promotion purchase\<close>

text \<open>
  C1. The claim: buy-promotion checks the balance against the requested amount
  converted to native units and submits a transfer of that converted amount minus the
  signature-fee reserve, exactly as make-donation does. The code differs. A user with
  two SOL who buys a promotion of 1 SOL passes the balance check on 1,000,000,000
  units, but \<^verbatim>\<open>chargePromotion\<close> builds the transfer for \<open>1 - 5000 = -4999\<close> units
  (the unconverted amount minus the reserve), which cannot be encoded: no transfer is
  submitted and the outcome is \<open>INTERNAL_ERROR\<close>, where \<^verbatim>\<open>chargeDonation\<close> for the
  same amount submits 999,995,000 units. For an amount of 6000 SOL and a balance
  covering it, \<^verbatim>\<open>chargePromotion\<close> submits 1000 units where \<^verbatim>\<open>chargeDonation\<close>
  submits 5,999,999,995,000.
\<close>

theorem C1_promotion_transfers_unconverted_amount:
  "fsub 1 SIGNATURE_FEE = - 4999
   \<and> run (chargePromotion envRich ''u1'' 1 ''BANNER'') =
       (Returns \<lparr>success = False, message = INTERNAL_ERROR\<rparr>,
        [GetById ''u1'', GetAccountBalance ''wallet1''])
   \<and> snd (run (chargeDonation envRich ''u1'' 1)) =
       [GetById ''u1'', GetAccountBalance ''wallet1'',
        CreateAndSendNativeV0Tx
          [Transfer \<lparr>fromPubkey = ''wallet1'', toPubkey = ''operator'', lamports = 999995000\<rparr>]
          ''secret1'',
        HasDonated ''u1'']
   \<and> snd (run (chargePromotion envWhale ''u1'' 6000 ''BANNER'')) =
       [GetById ''u1'', GetAccountBalance ''wallet1'',
        CreateAndSendNativeV0Tx
          [Transfer \<lparr>fromPubkey = ''wallet1'', toPubkey = ''operator'', lamports = 1000\<rparr>]
          ''secret1'',
        BuyPromotion ''u1'' ''BANNER'']
   \<and> snd (run (chargeDonation envWhale ''u1'' 6000)) =
       [GetById ''u1'', GetAccountBalance ''wallet1'',
        CreateAndSendNativeV0Tx
          [Transfer \<lparr>fromPubkey = ''wallet1'', toPubkey = ''operator'',
                     lamports = 5999999995000\<rparr>]
          ''secret1'',
        HasDonated ''u1'']"
  by (simp add: chargePromotion_def chargeDonation_def service_defs truthy_def double_simps
        isU64_def LAMPORTS_PER_SOL_def SIGNATURE_FEE_def env_defs prog_defs)

text \<open>
  C2. The claim: a user who already holds a non-stackable promotion of the requested
  type and whose balance covers the amount is charged by exactly one transfer call and
  gets \<open>USER_ALREADY_PAID\<close> with \<open>success = false\<close>. The code differs, by the defect
  of C1: for a promotion of 1 SOL and a balance of two SOL the transfer is built for
  \<open>-4999\<close> units, building it throws, and the entry point returns \<open>INTERNAL_ERROR\<close>
  without any transfer call and without asking the promotion store, which would have
  answered \<^verbatim>\<open>Non-stackable promotion already purchased\<close>.
\<close>

theorem C2_held_promotion_not_charged:
  "getById envHeld ''u1'' = Returns (Some user1)
   \<and> getAccountBalance envHeld ''wallet1'' = Returns (Some 2000000000)
   \<and> fmul 1 LAMPORTS_PER_SOL \<le> 2000000000
   \<and> buyPromotion envHeld ''u1'' ''BANNER'' =
        Returns ''Non-stackable promotion already purchased''
   \<and> run (chargePromotion envHeld ''u1'' 1 ''BANNER'') =
       (Returns \<lparr>success = False, message = INTERNAL_ERROR\<rparr>,
        [GetById ''u1'', GetAccountBalance ''wallet1''])
   \<and> filter isTransferCall (snd (run (chargePromotion envHeld ''u1'' 1 ''BANNER''))) = []"
  by (simp add: chargePromotion_def service_defs truthy_def double_simps
        isU64_def LAMPORTS_PER_SOL_def SIGNATURE_FEE_def env_defs prog_defs)

section \<open>Failed transfers\<close>

lemma failed_transfer_subscription:
  assumes "getById e userId = Returns (Some user)"
    and "newPublicKey e (personalWalletPubKey user) = Returns pk"
    and "getAccountBalance e pk = Returns (Some balance)"
    and "balance \<noteq> 0"
    and "\<not> isInvalidUpgrade e plan (currentPlan user platform)"
    and "truthy (getPlanFee e plan) = Some planFee"
    and "planFee \<le> balance"
    and "fst (run (transferAttempt e pk (personalWalletPrivKey user)
                (fsub planFee SIGNATURE_FEE))) \<noteq> Returns True"
  shows "fst (run (chargeSubscription e userId plan platform)) =
           Returns \<lparr>success = False, message = INTERNAL_ERROR, subscriptionEnd = None\<rparr>
       \<and> filter isEntitlementWrite (snd (run (chargeSubscription e userId plan platform))) = []"
  using assms
  by (auto simp: chargeSubscription_def currentPlan_def service_defs truthy_def prog_defs
        split: reply.splits if_splits)

lemma failed_transfer_donation:
  assumes "getById e userId = Returns (Some user)"
    and "newPublicKey e (personalWalletPubKey user) = Returns pk"
    and "getAccountBalance e pk = Returns (Some balance)"
    and "balance \<noteq> 0"
    and "fmul donation LAMPORTS_PER_SOL \<le> balance"
    and "fst (run (transferAttempt e pk (personalWalletPrivKey user)
                (fsub (fmul donation LAMPORTS_PER_SOL) SIGNATURE_FEE))) \<noteq> Returns True"
  shows "fst (run (chargeDonation e userId donation)) =
           Returns \<lparr>success = False, message = INTERNAL_ERROR\<rparr>
       \<and> filter isEntitlementWrite (snd (run (chargeDonation e userId donation))) = []"
  using assms
  by (auto simp: chargeDonation_def service_defs truthy_def prog_defs
        split: reply.splits if_splits)

lemma failed_transfer_promotion:
  assumes "getById e userId = Returns (Some user)"
    and "newPublicKey e (personalWalletPubKey user) = Returns pk"
    and "getAccountBalance e pk = Returns (Some balance)"
    and "balance \<noteq> 0"
    and "fmul promotionAmt LAMPORTS_PER_SOL \<le> balance"
    and "fst (run (transferAttempt e pk (personalWalletPrivKey user)
                (fsub promotionAmt SIGNATURE_FEE))) \<noteq> Returns True"
  shows "fst (run (chargePromotion e userId promotionAmt promotionType)) =
           Returns \<lparr>success = False, message = INTERNAL_ERROR\<rparr>
       \<and> filter isEntitlementWrite
            (snd (run (chargePromotion e userId promotionAmt promotionType))) = []"
  using assms
  by (auto simp: chargePromotion_def service_defs truthy_def prog_defs
        split: reply.splits if_splits)

text \<open>
  C3. In each of the three entry points, once the balance covers the amount and the
  transfer is attempted: if the attempt throws (while the transfer is built, the signing
  key decoded, or the transaction submitted) or returns without confirmation, the outcome
  is \<open>INTERNAL_ERROR\<close> and the call makes no entitlement write: no subscription write,
  no donation flag, no promotion record. The amounts are those the source computes, in
  its arithmetic on doubles.
\<close>

theorem C3_failed_transfer_internal_error:
  assumes "getById e userId = Returns (Some user)"
    and "newPublicKey e (personalWalletPubKey user) = Returns pk"
    and "getAccountBalance e pk = Returns (Some balance)"
    and "balance \<noteq> 0"
  shows
    "(\<not> isInvalidUpgrade e plan (currentPlan user platform)
        \<and> truthy (getPlanFee e plan) = Some planFee \<and> planFee \<le> balance
        \<and> fst (run (transferAttempt e pk (personalWalletPrivKey user)
                 (fsub planFee SIGNATURE_FEE))) \<noteq> Returns True
      \<longrightarrow> fst (run (chargeSubscription e userId plan platform)) =
            Returns \<lparr>success = False, message = INTERNAL_ERROR, subscriptionEnd = None\<rparr>
          \<and> filter isEntitlementWrite
               (snd (run (chargeSubscription e userId plan platform))) = [])
   \<and> (fmul donation LAMPORTS_PER_SOL \<le> balance
        \<and> fst (run (transferAttempt e pk (personalWalletPrivKey user)
                 (fsub (fmul donation LAMPORTS_PER_SOL) SIGNATURE_FEE))) \<noteq> Returns True
      \<longrightarrow> fst (run (chargeDonation e userId donation)) =
            Returns \<lparr>success = False, message = INTERNAL_ERROR\<rparr>
          \<and> filter isEntitlementWrite (snd (run (chargeDonation e userId donation))) = [])
   \<and> (fmul promotionAmt LAMPORTS_PER_SOL \<le> balance
        \<and> fst (run (transferAttempt e pk (personalWalletPrivKey user)
                 (fsub promotionAmt SIGNATURE_FEE))) \<noteq> Returns True
      \<longrightarrow> fst (run (chargePromotion e userId promotionAmt promotionType)) =
            Returns \<lparr>success = False, message = INTERNAL_ERROR\<rparr>
          \<and> filter isEntitlementWrite
               (snd (run (chargePromotion e userId promotionAmt promotionType))) = [])"
  using failed_transfer_subscription [OF assms, of plan platform planFee]
    failed_transfer_donation [OF assms, of donation]
    failed_transfer_promotion [OF assms, of promotionAmt promotionType]
  by blast

theorem C3_failed_transfer_internal_error_witness:
  "getById envUnconfirmed ''u1'' = Returns (Some user1)
   \<and> newPublicKey envUnconfirmed (personalWalletPubKey user1) = Returns ''wallet1''
   \<and> getAccountBalance envUnconfirmed ''wallet1'' = Returns (Some 2000000000)
   \<and> \<not> isInvalidUpgrade envUnconfirmed HOBBY (currentPlan user1 ''BOOSTS'')
   \<and> truthy (getPlanFee envUnconfirmed HOBBY) = Some 500000
   \<and> fst (run (transferAttempt envUnconfirmed ''wallet1'' (personalWalletPrivKey user1)
              (fsub 500000 SIGNATURE_FEE))) = Returns False
   \<and> fmul 1 LAMPORTS_PER_SOL \<le> 2000000000
   \<and> fst (run (transferAttempt envUnconfirmed ''wallet1'' (personalWalletPrivKey user1)
              (fsub (fmul 1 LAMPORTS_PER_SOL) SIGNATURE_FEE))) = Returns False
   \<and> fst (run (transferAttempt envUnconfirmed ''wallet1'' (personalWalletPrivKey user1)
              (fsub 1 SIGNATURE_FEE))) = Throws
   \<and> fst (run (chargeSubscription envUnconfirmed ''u1'' HOBBY ''BOOSTS'')) =
        Returns \<lparr>success = False, message = INTERNAL_ERROR, subscriptionEnd = None\<rparr>
   \<and> filter isEntitlementWrite
        (snd (run (chargeSubscription envUnconfirmed ''u1'' HOBBY ''BOOSTS''))) = []
   \<and> fst (run (chargeDonation envUnconfirmed ''u1'' 1)) =
        Returns \<lparr>success = False, message = INTERNAL_ERROR\<rparr>
   \<and> filter isEntitlementWrite (snd (run (chargeDonation envUnconfirmed ''u1'' 1))) = []
   \<and> fst (run (chargePromotion envUnconfirmed ''u1'' 1 ''BANNER'')) =
        Returns \<lparr>success = False, message = INTERNAL_ERROR\<rparr>
   \<and> filter isEntitlementWrite
        (snd (run (chargePromotion envUnconfirmed ''u1'' 1 ''BANNER''))) = []"
proof -
  have user: "getById envUnconfirmed ''u1'' = Returns (Some user1)"
    by (simp add: env_defs)
  have key: "newPublicKey envUnconfirmed (personalWalletPubKey user1) = Returns ''wallet1''"
    by (simp add: env_defs)
  have bal: "getAccountBalance envUnconfirmed ''wallet1'' = Returns (Some 2000000000)"
    by (simp add: env_defs)
  have nz: "(2000000000::rat) \<noteq> 0"
    by simp
  have valid: "\<not> isInvalidUpgrade envUnconfirmed HOBBY (currentPlan user1 ''BOOSTS'')"
    by (simp add: isInvalidUpgrade_def currentPlan_def env_defs)
  have fee: "truthy (getPlanFee envUnconfirmed HOBBY) = Some 500000"
    by (simp add: truthy_def getPlanFee_def env_defs)
  have enough: "fmul 1 LAMPORTS_PER_SOL \<le> 2000000000"
    by (simp add: double_simps LAMPORTS_PER_SOL_def)
  have sent: "fst (run (transferAttempt envUnconfirmed ''wallet1''
                (personalWalletPrivKey user1) (fsub 500000 SIGNATURE_FEE))) = Returns False"
    and sent': "fst (run (transferAttempt envUnconfirmed ''wallet1''
                (personalWalletPrivKey user1)
                (fsub (fmul 1 LAMPORTS_PER_SOL) SIGNATURE_FEE))) = Returns False"
    and thrown: "fst (run (transferAttempt envUnconfirmed ''wallet1''
                (personalWalletPrivKey user1) (fsub 1 SIGNATURE_FEE))) = Throws"
    by (simp_all add: env_defs service_defs prog_defs double_simps isU64_def
          LAMPORTS_PER_SOL_def SIGNATURE_FEE_def)
  show ?thesis
    using user key bal valid fee enough sent sent' thrown
      C3_failed_transfer_internal_error [OF user key bal nz,
        of HOBBY "''BOOSTS''" 500000 1 1 "''BANNER''"]
    by simp
qed

section \<open>The upgrade validity rule\<close>

text \<open>
  C4, as stated, fails on the code: for every existing user, whenever
  \<open>rank(requestedPlan) \<le> rank(currentPlan)\<close>, an absent subscription counting as FREE,
  the upgrade is to return \<open>USER_ALREADY_PAID\<close> without a balance query. A user
  without a subscription who requests FREE has equal ranks, yet \<^verbatim>\<open>isInvalidUpgrade\<close>
  compares the requested plan with the missing plan (\<^verbatim>\<open>undefined === 'FREE'\<close> is
  false), so the request passes, the balance is queried, and the outcome is
  \<open>INVALID_PLAN\<close>.
\<close>

theorem C4_free_request_not_rejected:
  "getById env0 ''u1'' = Returns (Some user1)
   \<and> SUBSCRIPTION_HIERARCHY env0 FREE \<le> currentRank env0 user1 ''BOOSTS''
   \<and> run (chargeSubscription env0 ''u1'' FREE ''BOOSTS'') =
       (Returns \<lparr>success = False, message = INVALID_PLAN, subscriptionEnd = None\<rparr>,
        [GetById ''u1'', GetAccountBalance ''wallet1''])"
  by (simp add: chargeSubscription_def isInvalidUpgrade_def getPlanFee_def currentRank_def
        currentPlan_def truthy_def env_defs prog_defs)

text \<open>
  C4, amended. Ranks being pairwise distinct: for every existing user and every
  requested plan other than FREE (the plans the entry point is typed for), and also for
  a FREE request of a user who has a subscription on the platform, whenever
  \<open>rank(requestedPlan) \<le> rank(currentPlan)\<close>, an absent subscription counting as FREE,
  the upgrade returns \<open>USER_ALREADY_PAID\<close> and the user lookup is its only call: no
  balance query, no transfer.
\<close>

theorem C4_no_upgrade_already_paid:
  assumes "getById e userId = Returns (Some user)"
    and "inj (SUBSCRIPTION_HIERARCHY e)"
    and "plan \<noteq> FREE \<or> currentPlan user platform \<noteq> None"
    and "SUBSCRIPTION_HIERARCHY e plan \<le> currentRank e user platform"
  shows "run (chargeSubscription e userId plan platform) =
           (Returns \<lparr>success = False, message = USER_ALREADY_PAID, subscriptionEnd = None\<rparr>,
            [GetById userId])"
proof -
  have "isInvalidUpgrade e plan (currentPlan user platform)"
  proof (cases "SUBSCRIPTION_HIERARCHY e plan < currentRank e user platform")
    case True
    then show ?thesis
      by (simp add: isInvalidUpgrade_def currentRank_def)
  next
    case False
    with assms(4) have "SUBSCRIPTION_HIERARCHY e plan = currentRank e user platform"
      by simp
    with assms(2) have "plan = (case currentPlan user platform of None \<Rightarrow> FREE | Some p \<Rightarrow> p)"
      by (simp add: currentRank_def inj_eq)
    with assms(3) show ?thesis
      by (auto simp: isInvalidUpgrade_def split: option.splits)
  qed
  with assms(1) show ?thesis
    by (simp add: chargeSubscription_def currentPlan_def prog_defs)
qed

theorem C4_no_upgrade_already_paid_witness:
  "getById env0 ''u2'' = Returns (Some user2)
   \<and> inj (SUBSCRIPTION_HIERARCHY env0)
   \<and> HOBBY \<noteq> FREE
   \<and> SUBSCRIPTION_HIERARCHY env0 HOBBY \<le> currentRank env0 user2 ''BOOSTS''
   \<and> run (chargeSubscription env0 ''u2'' HOBBY ''BOOSTS'') =
       (Returns \<lparr>success = False, message = USER_ALREADY_PAID, subscriptionEnd = None\<rparr>,
        [GetById ''u2''])"
proof -
  have user: "getById env0 ''u2'' = Returns (Some user2)"
    by (simp add: env_defs)
  have ranks: "inj (SUBSCRIPTION_HIERARCHY env0)"
    by (auto simp: inj_def env0_def split: SubscriptionPlan.splits)
  have paid: "HOBBY \<noteq> FREE \<or> currentPlan user2 ''BOOSTS'' \<noteq> None"
    by simp
  have rank: "SUBSCRIPTION_HIERARCHY env0 HOBBY \<le> currentRank env0 user2 ''BOOSTS''"
    by (simp add: currentRank_def currentPlan_def env_defs)
  show ?thesis
    using user ranks rank C4_no_upgrade_already_paid [OF user ranks paid rank]
    by simp
qed

section \<open>Price lookup and balance query\<close>

text \<open>
  C5, as stated, fails on the code: a request that passes the validity rule and has no
  price is to get \<open>INVALID_PLAN\<close> whether or not the balance query succeeds, the price
  lookup coming first. The code queries the balance before it looks the price up: for a
  user without a subscription who requests FREE (no price) while the balance query
  returns nothing, the outcome is \<open>INSUFFICIENT_BALANCE\<close>.
\<close>

theorem C5_balance_checked_before_price:
  "getById envNoBalance ''u1'' = Returns (Some user1)
   \<and> \<not> isInvalidUpgrade envNoBalance FREE (currentPlan user1 ''BOOSTS'')
   \<and> getPlanFee envNoBalance FREE = None
   \<and> run (chargeSubscription envNoBalance ''u1'' FREE ''BOOSTS'') =
       (Returns \<lparr>success = False, message = INSUFFICIENT_BALANCE, subscriptionEnd = None\<rparr>,
        [GetById ''u1'', GetAccountBalance ''wallet1''])"
  by (simp add: chargeSubscription_def isInvalidUpgrade_def getPlanFee_def
        currentPlan_def truthy_def env_defs prog_defs)

text \<open>
  C5, amended. For every existing user whose request passes the validity rule and whose
  requested plan has no price, the balance is queried first: when the query returns a
  balance other than zero the upgrade returns \<open>INVALID_PLAN\<close>, and when it returns
  nothing or zero the upgrade returns \<open>INSUFFICIENT_BALANCE\<close>. In both cases the user
  lookup and the balance query are the only calls.
\<close>

theorem C5_no_price_after_balance:
  assumes "getById e userId = Returns (Some user)"
    and "\<not> isInvalidUpgrade e plan (currentPlan user platform)"
    and "getPlanFee e plan = None"
    and "newPublicKey e (personalWalletPubKey user) = Returns pk"
    and "getAccountBalance e pk = Returns balanceOpt"
  shows "run (chargeSubscription e userId plan platform) =
           (Returns \<lparr>success = False,
                     message = (if truthy balanceOpt = None then INSUFFICIENT_BALANCE
                                else INVALID_PLAN),
                     subscriptionEnd = None\<rparr>,
            [GetById userId, GetAccountBalance pk])"
  using assms
  by (auto simp: chargeSubscription_def currentPlan_def truthy_def prog_defs
        split: option.splits)

theorem C5_no_price_after_balance_witness:
  "getById env0 ''u1'' = Returns (Some user1)
   \<and> \<not> isInvalidUpgrade env0 FREE (currentPlan user1 ''BOOSTS'')
   \<and> getPlanFee env0 FREE = None
   \<and> newPublicKey env0 (personalWalletPubKey user1) = Returns ''wallet1''
   \<and> getAccountBalance env0 ''wallet1'' = Returns (Some 1000000)
   \<and> run (chargeSubscription env0 ''u1'' FREE ''BOOSTS'') =
       (Returns \<lparr>success = False, message = INVALID_PLAN, subscriptionEnd = None\<rparr>,
        [GetById ''u1'', GetAccountBalance ''wallet1''])"
proof -
  have user: "getById env0 ''u1'' = Returns (Some user1)"
    by (simp add: env_defs)
  have valid: "\<not> isInvalidUpgrade env0 FREE (currentPlan user1 ''BOOSTS'')"
    by (simp add: isInvalidUpgrade_def currentPlan_def env_defs)
  have fee: "getPlanFee env0 FREE = None"
    by (simp add: getPlanFee_def)
  have key: "newPublicKey env0 (personalWalletPubKey user1) = Returns ''wallet1''"
    by (simp add: env_defs)
  have bal: "getAccountBalance env0 ''wallet1'' = Returns (Some 1000000)"
    by (simp add: env_defs)
  show ?thesis
    using user valid fee key bal C5_no_price_after_balance [OF user valid fee key bal]
    by (simp add: truthy_def)
qed

section \<open>Exceptions that leave the entry points\<close>











section \<open>Amounts and boundaries\<close>

text \<open>
  C7. In the upgrade path, when the balance covers the price and the transfer is built
  and submitted, the one transfer call of the invocation carries the plan price minus
  the signature-fee reserve of 5000, as the source computes it on doubles; for a price
  that is a whole number of units the difference is exact. When the transfer is
  confirmed and the subscription write returns, the outcome is \<open>PLAN_UPGRADED\<close>. With
  a HOBBY price of 500,000 units the submitted amount is 495,000 units (the instance
  below).
\<close>

theorem C7_upgrade_transfer_amount:
  assumes "getById e userId = Returns (Some user)"
    and "\<not> isInvalidUpgrade e plan (currentPlan user platform)"
    and "newPublicKey e (personalWalletPubKey user) = Returns pk"
    and "getAccountBalance e pk = Returns (Some balance)"
    and "getPlanFee e plan = Some planFee"
    and "planFee \<noteq> 0"
    and "balance \<noteq> 0"
    and "planFee \<le> balance"
    and "newPublicKey e (BETTER_CALL_SOL_PK e) = Returns operator"
    and "lamportsEncodable e (fsub planFee 5000)"
    and "Keypair_fromSecretKey e (personalWalletPrivKey user) = Returns keypair"
    and "createAndSendNativeV0Tx e
           [Transfer \<lparr>fromPubkey = pk, toPubkey = operator, lamports = fsub planFee 5000\<rparr>]
           keypair = Returns confirmed"
  shows "filter isTransferCall (snd (run (chargeSubscription e userId plan platform))) =
           [CreateAndSendNativeV0Tx
              [Transfer \<lparr>fromPubkey = pk, toPubkey = operator, lamports = fsub planFee 5000\<rparr>]
              keypair]
       \<and> (planFee \<in> \<int> \<and> \<bar>planFee - 5000\<bar> < 2 ^ 53 \<longrightarrow> fsub planFee 5000 = planFee - 5000)
       \<and> (confirmed \<and> fst (run (updateUserSubscription e (id' user) plan platform)) \<noteq> Throws
            \<longrightarrow> (\<exists>periodEnd. fst (run (chargeSubscription e userId plan platform)) =
                   Returns \<lparr>success = True, message = PLAN_UPGRADED,
                            subscriptionEnd = Some periodEnd\<rparr>))"
proof -
  have "fsub planFee 5000 = planFee - 5000"
    if "planFee \<in> \<int>" and "\<bar>planFee - 5000\<bar> < 2 ^ 53"
    unfolding fsub_def using that by (intro toDouble_exact) simp_all
  moreover have
    "filter isTransferCall (snd (run (chargeSubscription e userId plan platform))) =
           [CreateAndSendNativeV0Tx
              [Transfer \<lparr>fromPubkey = pk, toPubkey = operator, lamports = fsub planFee 5000\<rparr>]
              keypair]
       \<and> (confirmed \<and> fst (run (updateUserSubscription e (id' user) plan platform)) \<noteq> Throws
            \<longrightarrow> (\<exists>periodEnd. fst (run (chargeSubscription e userId plan platform)) =
                   Returns \<lparr>success = True, message = PLAN_UPGRADED,
                            subscriptionEnd = Some periodEnd\<rparr>))"
    using assms
    by (auto simp: chargeSubscription_def currentPlan_def service_defs truthy_def prog_defs
          SIGNATURE_FEE_def Let_def
          split: reply.splits if_splits)
  ultimately show ?thesis
    by blast
qed

theorem C7_upgrade_transfer_amount_witness:
  "getById env0 ''u1'' = Returns (Some user1)
   \<and> \<not> isInvalidUpgrade env0 HOBBY (currentPlan user1 ''BOOSTS'')
   \<and> getAccountBalance env0 ''wallet1'' = Returns (Some 1000000)
   \<and> getPlanFee env0 HOBBY = Some 500000
   \<and> createAndSendNativeV0Tx env0
        [Transfer \<lparr>fromPubkey = ''wallet1'', toPubkey = ''operator'', lamports = 495000\<rparr>]
        ''secret1'' = Returns True
   \<and> fst (run (updateUserSubscription env0 (id' user1) HOBBY ''BOOSTS'')) \<noteq> Throws
   \<and> fsub 500000 5000 = 495000
   \<and> filter isTransferCall (snd (run (chargeSubscription env0 ''u1'' HOBBY ''BOOSTS''))) =
        [CreateAndSendNativeV0Tx
           [Transfer \<lparr>fromPubkey = ''wallet1'', toPubkey = ''operator'', lamports = 495000\<rparr>]
           ''secret1'']
   \<and> (\<exists>periodEnd. fst (run (chargeSubscription env0 ''u1'' HOBBY ''BOOSTS'')) =
        Returns \<lparr>success = True, message = PLAN_UPGRADED, subscriptionEnd = Some periodEnd\<rparr>)"
proof -
  have user: "getById env0 ''u1'' = Returns (Some user1)"
    by (simp add: env_defs)
  have valid: "\<not> isInvalidUpgrade env0 HOBBY (currentPlan user1 ''BOOSTS'')"
    by (simp add: isInvalidUpgrade_def currentPlan_def env_defs)
  have key: "newPublicKey env0 (personalWalletPubKey user1) = Returns ''wallet1''"
    by (simp add: env_defs)
  have bal: "getAccountBalance env0 ''wallet1'' = Returns (Some 1000000)"
    by (simp add: env_defs)
  have fee: "getPlanFee env0 HOBBY = Some 500000"
    by (simp add: getPlanFee_def env_defs)
  have feenz: "(500000::rat) \<noteq> 0" and balnz: "(1000000::rat) \<noteq> 0"
    and enough: "(500000::rat) \<le> 1000000"
    by simp_all
  have amount: "fsub 500000 5000 = 495000"
    by (simp add: double_simps)
  have operator: "newPublicKey env0 (BETTER_CALL_SOL_PK env0) = Returns ''operator''"
    by (simp add: env_defs)
  have encodable: "lamportsEncodable env0 (fsub 500000 5000)"
    by (simp add: amount isU64_def env_defs)
  have keypair: "Keypair_fromSecretKey env0 (personalWalletPrivKey user1) = Returns ''secret1''"
    by (simp add: env_defs)
  have sent: "createAndSendNativeV0Tx env0
        [Transfer \<lparr>fromPubkey = ''wallet1'', toPubkey = ''operator'',
                   lamports = fsub 500000 5000\<rparr>]
        ''secret1'' = Returns True"
    by (simp add: env_defs)
  have written: "fst (run (updateUserSubscription env0 (id' user1) HOBBY ''BOOSTS'')) \<noteq> Throws"
    by (simp add: service_defs env_defs prog_defs)
  show ?thesis
    using user valid bal fee sent written amount
      C7_upgrade_transfer_amount [OF user valid key bal fee feenz balnz enough operator
        encodable keypair sent]
    by simp
qed




text \<open>
  C9, as stated, fails on the code: the write of the FREE subscription is to be best
  effort, its failure leaving the outcome \<open>INSUFFICIENT_BALANCE\<close>. The code awaits the
  write outside of any \<^verbatim>\<open>try\<close> block: for a user without a subscription and with a
  balance of 100 units below the HOBBY price, a failing write makes the entry point throw.
\<close>

theorem C9_failed_free_write_throws:
  "getById envPoorWriteFails ''u1'' = Returns (Some user1)
   \<and> currentPlan user1 ''BOOSTS'' = None
   \<and> getAccountBalance envPoorWriteFails ''wallet1'' = Returns (Some 100)
   \<and> getPlanFee envPoorWriteFails HOBBY = Some 500000
   \<and> run (chargeSubscription envPoorWriteFails ''u1'' HOBBY ''BOOSTS'') =
       (Throws, [GetById ''u1'', GetAccountBalance ''wallet1'',
                 UpdateUserSubscription ''u1'' FREE ''BOOSTS'' None])"
  by (simp add: chargeSubscription_def isInvalidUpgrade_def getPlanFee_def
        currentPlan_def truthy_def env_defs prog_defs)

text \<open>
  C9, amended. In the upgrade path, for every existing user whose request passes the
  validity rule and whose balance is other than zero and below the price: a user with a
  subscription on the platform gets \<open>INSUFFICIENT_BALANCE\<close> and no write is made; for a
  user without one, the FREE subscription is written for the platform, and the outcome is
  \<open>INSUFFICIENT_BALANCE\<close> when that write returns, while a write that throws makes the
  entry point throw.
\<close>

theorem C9_insufficient_balance_free_row:
  assumes "getById e userId = Returns (Some user)"
    and "\<not> isInvalidUpgrade e plan (currentPlan user platform)"
    and "newPublicKey e (personalWalletPubKey user) = Returns pk"
    and "getAccountBalance e pk = Returns (Some balance)"
    and "balance \<noteq> 0"
    and "truthy (getPlanFee e plan) = Some planFee"
    and "balance < planFee"
  shows "run (chargeSubscription e userId plan platform) =
     (case currentPlan user platform of
        Some p \<Rightarrow>
          (Returns \<lparr>success = False, message = INSUFFICIENT_BALANCE, subscriptionEnd = None\<rparr>,
           [GetById userId, GetAccountBalance pk])
      | None \<Rightarrow>
          (case repo_updateUserSubscription e (id' user) FREE platform None of
             Returns row \<Rightarrow>
               Returns \<lparr>success = False, message = INSUFFICIENT_BALANCE, subscriptionEnd = None\<rparr>
           | Throws \<Rightarrow> Throws,
           [GetById userId, GetAccountBalance pk,
            UpdateUserSubscription (id' user) FREE platform None]))"
  using assms
  by (auto simp: chargeSubscription_def currentPlan_def truthy_def prog_defs
        split: reply.splits if_splits option.splits)

theorem C9_insufficient_balance_free_row_witness:
  "getById envPoor ''u1'' = Returns (Some user1)
   \<and> \<not> isInvalidUpgrade envPoor HOBBY (currentPlan user1 ''BOOSTS'')
   \<and> currentPlan user1 ''BOOSTS'' = None
   \<and> getAccountBalance envPoor ''wallet1'' = Returns (Some 100)
   \<and> truthy (getPlanFee envPoor HOBBY) = Some 500000
   \<and> run (chargeSubscription envPoor ''u1'' HOBBY ''BOOSTS'') =
       (Returns \<lparr>success = False, message = INSUFFICIENT_BALANCE, subscriptionEnd = None\<rparr>,
        [GetById ''u1'', GetAccountBalance ''wallet1'',
         UpdateUserSubscription ''u1'' FREE ''BOOSTS'' None])"
proof -
  have user: "getById envPoor ''u1'' = Returns (Some user1)"
    by (simp add: env_defs)
  have valid: "\<not> isInvalidUpgrade envPoor HOBBY (currentPlan user1 ''BOOSTS'')"
    by (simp add: isInvalidUpgrade_def currentPlan_def env_defs)
  have none: "currentPlan user1 ''BOOSTS'' = None"
    by (simp add: currentPlan_def env_defs)
  have key: "newPublicKey envPoor (personalWalletPubKey user1) = Returns ''wallet1''"
    by (simp add: env_defs)
  have bal: "getAccountBalance envPoor ''wallet1'' = Returns (Some 100)"
    by (simp add: env_defs)
  have nz: "(100::rat) \<noteq> 0" and short: "(100::rat) < 500000"
    by simp_all
  have fee: "truthy (getPlanFee envPoor HOBBY) = Some 500000"
    by (simp add: truthy_def getPlanFee_def env_defs)
  have row: "repo_updateUserSubscription envPoor ''u1'' FREE ''BOOSTS'' None =
               Returns \<lparr>subscriptionCurrentPeriodEnd = Some 1764633600000\<rparr>"
    by (simp add: env_defs)
  have uid: "id' user1 = ''u1''"
    by (simp add: env_defs)
  show ?thesis
    using user valid none bal fee
      C9_insufficient_balance_free_row [OF user valid key bal nz fee short]
    by (simp add: row uid)
qed

section \<open>The success flag\<close>

lemma flag_subscription:
  "fst (run (chargeSubscription e userId plan platform)) = Returns r \<Longrightarrow>
     success r = isSuccessMessage (message r)"
  by (auto simp: chargeSubscription_def service_defs isSuccessMessage_def prog_defs Let_def
        split: reply.splits if_splits option.splits prod.splits)

lemma flag_donation:
  "fst (run (chargeDonation e userId donation)) = Returns r \<Longrightarrow>
     success r = isSuccessMessage (message r)"
  by (auto simp: chargeDonation_def service_defs isSuccessMessage_def prog_defs Let_def
        split: reply.splits if_splits option.splits prod.splits)

lemma flag_promotion:
  "fst (run (chargePromotion e userId promotionAmt promotionType)) = Returns r \<Longrightarrow>
     success r = isSuccessMessage (message r)"
  by (auto simp: chargePromotion_def service_defs isSuccessMessage_def prog_defs Let_def
        split: reply.splits if_splits option.splits prod.splits)

text \<open>
  C10. Every outcome returned by \<^verbatim>\<open>chargeSubscription\<close>, \<^verbatim>\<open>chargeDonation\<close> or
  \<^verbatim>\<open>chargePromotion\<close> has its success flag true exactly when its message is one of
  \<open>PLAN_UPGRADED\<close>, \<open>DONATION_MADE\<close>, \<open>TRANSACTION_SUCCESS\<close>; every other reason code
  comes with \<open>success = false\<close>.
\<close>

theorem C10_success_flag_matches_message:
  "(fst (run (chargeSubscription e userId plan platform)) = Returns upgraded
      \<longrightarrow> success upgraded = isSuccessMessage (message upgraded))
   \<and> (fst (run (chargeDonation e userId donation)) = Returns donated
      \<longrightarrow> success donated = isSuccessMessage (message donated))
   \<and> (fst (run (chargePromotion e userId promotionAmt promotionType)) = Returns promoted
      \<longrightarrow> success promoted = isSuccessMessage (message promoted))"
  using flag_subscription [of e userId plan platform upgraded]
    flag_donation [of e userId donation donated]
    flag_promotion [of e userId promotionAmt promotionType promoted]
  by blast

theorem C10_success_flag_matches_message_witness:
  "fst (run (chargeSubscription envRich ''u1'' HOBBY ''BOOSTS'')) =
      Returns \<lparr>success = True, message = PLAN_UPGRADED, subscriptionEnd = Some ''12/02/2025''\<rparr>
   \<and> success \<lparr>success = True, message = PLAN_UPGRADED, subscriptionEnd = Some ''12/02/2025''\<rparr> =
        isSuccessMessage (message \<lparr>success = True, message = PLAN_UPGRADED,
                                    subscriptionEnd = Some ''12/02/2025''\<rparr>)
   \<and> fst (run (chargeDonation envRich ''u1'' 1)) =
      Returns \<lparr>success = True, message = DONATION_MADE\<rparr>
   \<and> success \<lparr>success = True, message = DONATION_MADE\<rparr> =
        isSuccessMessage (message \<lparr>success = True, message = DONATION_MADE\<rparr>)
   \<and> fst (run (chargePromotion envRich ''u1'' 1 ''BANNER'')) =
      Returns \<lparr>success = False, message = INTERNAL_ERROR\<rparr>
   \<and> success \<lparr>success = False, message = INTERNAL_ERROR\<rparr> =
        isSuccessMessage (message \<lparr>success = False, message = INTERNAL_ERROR\<rparr>)"
proof -
  have upgrade: "fst (run (chargeSubscription envRich ''u1'' HOBBY ''BOOSTS'')) =
      Returns \<lparr>success = True, message = PLAN_UPGRADED,
               subscriptionEnd = Some ''12/02/2025''\<rparr>"
    by (simp add: chargeSubscription_def isInvalidUpgrade_def getPlanFee_def service_defs
          truthy_def double_simps isU64_def SIGNATURE_FEE_def env_defs prog_defs)
  have donation: "fst (run (chargeDonation envRich ''u1'' 1)) =
      Returns \<lparr>success = True, message = DONATION_MADE\<rparr>"
    by (simp add: chargeDonation_def service_defs truthy_def double_simps isU64_def
          LAMPORTS_PER_SOL_def SIGNATURE_FEE_def env_defs prog_defs)
  have promotion: "fst (run (chargePromotion envRich ''u1'' 1 ''BANNER'')) =
      Returns \<lparr>success = False, message = INTERNAL_ERROR\<rparr>"
    by (simp add: chargePromotion_def service_defs truthy_def double_simps isU64_def
          LAMPORTS_PER_SOL_def SIGNATURE_FEE_def env_defs prog_defs)
  show ?thesis
    using upgrade donation promotion
      C10_success_flag_matches_message [of envRich "''u1''" HOBBY "''BOOSTS''"
        "\<lparr>success = True, message = PLAN_UPGRADED, subscriptionEnd = Some ''12/02/2025''\<rparr>"
        1 "\<lparr>success = True, message = DONATION_MADE\<rparr>"
        1 "''BANNER''" "\<lparr>success = False, message = INTERNAL_ERROR\<rparr>"]
    by blast
qed

end
